theory Spec2Isabelle
  imports Main "HOL-Library.Word" "HOL-Library.List_Lexorder" "HOL-Library.Sublist"
    "HOL-Library.AList"
begin

section \<open>JavaScript strings\<close>

text \<open>
  A JavaScript string is a sequence of 16-bit UTF-16 code units. Comparison with \<open>===\<close>
  is equality of the sequences, the default \<open>Array.prototype.sort\<close> orders strings
  lexicographically by code unit (a proper prefix comes first), which is the order
  the theory List_Lexorder of the library gives to lists of words. A string is truthy
  exactly when it is not empty.
\<close>

type_synonym jsstring = "16 word list"

definition js :: "string \<Rightarrow> jsstring" where
  "js s = map (\<lambda>c. of_nat (of_char c)) s"

definition truthy :: "jsstring \<Rightarrow> bool" where
  "truthy s = (s \<noteq> [])"

text \<open>
  \<open>String.prototype.trim\<close> removes the code units of the ECMAScript productions
  WhiteSpace and LineTerminator from both ends: TAB, LF, VT, FF, CR, SP, NBSP, U+1680,
  U+2000 to U+200A, LS, PS, U+202F, U+205F, U+3000 and the byte order mark U+FEFF.
\<close>

definition is_whitespace :: "16 word \<Rightarrow> bool" where
  "is_whitespace c =
     (c = 0x9 \<or> c = 0xA \<or> c = 0xB \<or> c = 0xC \<or> c = 0xD \<or> c = 0x20 \<or> c = 0xA0
      \<or> c = 0x1680 \<or> (0x2000 \<le> c \<and> c \<le> 0x200A) \<or> c = 0x2028 \<or> c = 0x2029
      \<or> c = 0x202F \<or> c = 0x205F \<or> c = 0x3000 \<or> c = 0xFEFF)"

definition trim :: "jsstring \<Rightarrow> jsstring" where
  "trim s = rev (dropWhile is_whitespace (rev (dropWhile is_whitespace s)))"

text \<open>
  \<open>s.split(',')\<close>: the pieces of \<open>s\<close> between its commas, in order. The empty string
  gives one empty piece, and a string with \<open>n\<close> commas gives \<open>n + 1\<close> pieces.
  \<open>split_from cur s\<close> carries the piece being read, reversed.
\<close>

definition comma :: "16 word" where
  "comma = 0x2C"

fun split_from :: "jsstring \<Rightarrow> jsstring \<Rightarrow> jsstring list" where
  "split_from cur [] = [rev cur]"
| "split_from cur (c # cs) =
     (if c = comma then rev cur # split_from [] cs else split_from (c # cur) cs)"

definition split_comma :: "jsstring \<Rightarrow> jsstring list" where
  "split_comma s = split_from [] s"

text \<open>\<open>ts.join(',')\<close>, the inverse of the split.\<close>

fun join_comma :: "jsstring list \<Rightarrow> jsstring" where
  "join_comma [] = []"
| "join_comma [t] = t"
| "join_comma (t # u # ts) = t @ comma # join_comma (u # ts)"

text \<open>
  \<open>s.includes(t)\<close>: \<open>t\<close> occurs in \<open>s\<close> as a contiguous run of code units, searched
  from position 0 upwards.
\<close>

fun includes_str :: "jsstring \<Rightarrow> jsstring \<Rightarrow> bool" where
  "includes_str [] t = (t = [])"
| "includes_str (c # cs) t = (prefix t (c # cs) \<or> includes_str cs t)"

section \<open>Projects\<close>

text \<open>
  A row of the \<open>projects\<close> table as the select returns it, and the project the
  repository hook keeps for it: the row's own fields and \<open>createdAt\<close>, the
  \<open>Date\<close> made from \<open>created_at\<close>. The text columns other than the title and the
  description may be null.
\<close>

datatype date = Date jsstring

record row =
  id_field :: nat
  owner_id :: jsstring
  created_at :: jsstring
  title :: jsstring
  description :: jsstring
  technologies :: "jsstring option"
  githubUrl :: "jsstring option"
  liveDemoUrl :: "jsstring option"

record project = row +
  createdAt :: date

definition mk_project :: "nat \<Rightarrow> jsstring option \<Rightarrow> project" where
  "mk_project i tech =
     \<lparr>id_field = i, owner_id = js ''abc123'', created_at = js ''2025-01-01'',
      title = js ''Demo'', description = js ''A demo project'', technologies = tech,
      githubUrl = None, liveDemoUrl = None, createdAt = Date (js ''2025-01-01'')\<rparr>"

section \<open>Technology tags\<close>

text \<open>
  A JavaScript \<open>Set\<close> keeps its members in insertion order and ignores the insertion
  of a member it already has; \<open>Array.from\<close> lists the members in that order.
\<close>

definition set_add :: "'a \<Rightarrow> 'a list \<Rightarrow> 'a list" where
  "set_add x tags = (if x \<in> set tags then tags else tags @ [x])"

definition add_tech :: "jsstring list \<Rightarrow> jsstring \<Rightarrow> jsstring list" where
  "add_tech tags tech = (if truthy (trim tech) then set_add (trim tech) tags else tags)"

definition add_project_tags :: "jsstring list \<Rightarrow> project \<Rightarrow> jsstring list" where
  "add_project_tags tags p =
     (case technologies p of
        None \<Rightarrow> tags
      | Some s \<Rightarrow> foldl add_tech tags (split_comma s))"

definition allTags :: "project list \<Rightarrow> jsstring list" where
  "allTags projects = sort (foldl add_project_tags [] projects)"

text \<open>
  The tokens the tag list is to hold: the trimmed pieces, not empty, of the technology
  field of some loaded project.
\<close>

definition tokens_of :: "project list \<Rightarrow> jsstring set" where
  "tokens_of ps =
     {trim t | p s t. p \<in> set ps \<and> technologies p = Some s \<and> t \<in> set (split_comma s)
        \<and> trim t \<noteq> []}"

section \<open>Tag filter\<close>

text \<open>
  \<open>TagFilter.handleTagClick\<close>: the new active tag after a click on the button of
  \<open>tag\<close>; \<open>None\<close> is \<open>null\<close>. The state holds one tag or none.
\<close>

definition handleTagClick :: "jsstring option \<Rightarrow> jsstring \<Rightarrow> jsstring option" where
  "handleTagClick activeTag tag = (if activeTag = Some tag then None else Some tag)"

text \<open>
  \<open>filteredProjects\<close>. \<open>String.prototype.toLowerCase\<close> is the engine's Unicode case
  mapping; it is a parameter here, so that what is proved holds for every such mapping.
  \<open>!activeTag\<close> holds for \<open>null\<close> and for the empty string. A project whose
  technology field is null is dropped by the optional chaining.
\<close>

definition filteredProjects ::
  "(jsstring \<Rightarrow> jsstring) \<Rightarrow> project list \<Rightarrow> jsstring option \<Rightarrow> project list" where
  "filteredProjects toLowerCase projects activeTag =
     (case activeTag of
        None \<Rightarrow> projects
      | Some tag \<Rightarrow>
          if \<not> truthy tag then projects
          else
            let lowerCaseActiveTag = toLowerCase tag
            in filter (\<lambda>p. case technologies p of
                             None \<Rightarrow> False
                           | Some t \<Rightarrow> includes_str (toLowerCase t) lowerCaseActiveTag)
                 projects)"

text \<open>
  The reading of "the technology text contains the tag as a case-insensitive substring":
  the project has a technology text, and the lower-cased tag occurs in the lower-cased
  text.
\<close>

definition contains_ci :: "(jsstring \<Rightarrow> jsstring) \<Rightarrow> jsstring \<Rightarrow> project \<Rightarrow> bool" where
  "contains_ci lc t p = (\<exists>s. technologies p = Some s \<and> sublist (lc t) (lc s))"

text \<open>The case mapping on the letters A to Z only, for examples.\<close>

definition ascii_lower :: "jsstring \<Rightarrow> jsstring" where
  "ascii_lower s = map (\<lambda>c. if 0x41 \<le> c \<and> c \<le> 0x5A then c + 0x20 else c) s"

section \<open>The hosted data service\<close>

text \<open>
  A JavaScript object with string keys is an association list in insertion order:
  \<open>{...o, k: v}\<close> is \<open>AList.update k v o\<close> (the value is replaced in place when the
  key is there, appended otherwise) and \<open>delete o.k\<close> is \<open>AList.delete k o\<close>.

  A request of the query builder is the table, the operation with its payload, the
  \<open>.eq(column, value)\<close> filters and, for a select, the \<open>.order\<close> clause (column,
  ascending). The awaited builder resolves to \<open>{data, error}\<close> or rejects. The client
  handle is the function that answers a request; the module-level \<open>supabase\<close> is that
  handle, or null when the URL or the key is missing from the environment.
\<close>

datatype jsval = JStr jsstring | JNum nat

type_synonym jsobject = "(string \<times> jsval) list"

datatype eq_filter = Eq string jsval

datatype request =
    Select string string "eq_filter list" "(string \<times> bool) option"
  | Insert string jsobject
  | Update string jsobject "eq_filter list"
  | Delete string "eq_filter list"

datatype service_error = ServiceError jsstring

datatype reply = Rejected | Reply "row list option" "service_error option"

type_synonym client = "request \<Rightarrow> reply"

definition supabase ::
  "jsstring option \<Rightarrow> jsstring option \<Rightarrow> (jsstring \<Rightarrow> jsstring \<Rightarrow> client) \<Rightarrow> client option" where
  "supabase SUPABASE_URL SUPABASE_ANON_KEY createClient =
     (case SUPABASE_URL of
        None \<Rightarrow> None
      | Some url \<Rightarrow>
          (case SUPABASE_ANON_KEY of
             None \<Rightarrow> None
           | Some key \<Rightarrow> if truthy url \<and> truthy key then Some (createClient url key) else None))"

text \<open>The filters of a request, and whether one of them is \<open>owner_id = userId\<close>.\<close>

fun filters_of :: "request \<Rightarrow> eq_filter list" where
  "filters_of (Select t cols fs ord) = fs"
| "filters_of (Insert t obj) = []"
| "filters_of (Update t obj fs) = fs"
| "filters_of (Delete t fs) = fs"

definition has_owner_filter :: "jsstring \<Rightarrow> request \<Rightarrow> bool" where
  "has_owner_filter uid req = (Eq ''owner_id'' (JStr uid) \<in> set (filters_of req))"

text \<open>
  A request is scoped to the rows of \<open>uid\<close> when it filters on \<open>owner_id = uid\<close> or,
  for an insert, when the row it writes has \<open>owner_id = uid\<close>.
\<close>

fun owner_scoped :: "jsstring \<Rightarrow> request \<Rightarrow> bool" where
  "owner_scoped uid (Insert t obj) = (map_of obj ''owner_id'' = Some (JStr uid))"
| "owner_scoped uid req = has_owner_filter uid req"

section \<open>Identity resolver\<close>

text \<open>
  \<open>useSupabaseAuth\<close>: the state after its effect has run, and the value of the
  \<open>portfolio_user_id\<close> key of the local storage afterwards. \<open>storedUserId\<close> is what
  \<open>localStorage.getItem\<close> returned and \<open>uuid\<close> what \<open>crypto.randomUUID()\<close> would
  return. \<open>VERCEL_OWNER_ID\<close> is the environment's value, or null when that is missing or
  empty.
\<close>

record auth_state =
  userId :: "jsstring option"
  isAuthReady :: bool
  isAppOwner :: bool

definition VERCEL_OWNER_ID :: "jsstring option \<Rightarrow> jsstring option" where
  "VERCEL_OWNER_ID env =
     (case env of None \<Rightarrow> None | Some s \<Rightarrow> if truthy s then Some s else None)"

definition generatedId :: "jsstring option \<Rightarrow> jsstring \<Rightarrow> jsstring" where
  "generatedId storedUserId uuid =
     (case storedUserId of None \<Rightarrow> uuid | Some s \<Rightarrow> if truthy s then s else uuid)"

definition useSupabaseAuth ::
  "client option \<Rightarrow> jsstring option \<Rightarrow> jsstring option \<Rightarrow> jsstring
     \<Rightarrow> auth_state \<times> jsstring option" where
  "useSupabaseAuth sb owner storedUserId uuid =
     (case sb of
        None \<Rightarrow> (\<lparr>userId = None, isAuthReady = True, isAppOwner = False\<rparr>, storedUserId)
      | Some c \<Rightarrow>
          let g = generatedId storedUserId uuid
          in (\<lparr>userId = Some g, isAuthReady = True,
               isAppOwner = (case owner of None \<Rightarrow> False | Some ow \<Rightarrow> g = ow)\<rparr>,
              Some g))"

section \<open>Project repository client\<close>

text \<open>
  The state of \<open>useProjects\<close>. Every operation returns the new state and the requests
  it sent to the data service, in order.
\<close>

record repo_state =
  projects :: "project list"
  loading :: bool
  error :: "string option"

definition initial_repo :: repo_state where
  "initial_repo = \<lparr>projects = [], loading = True, error = None\<rparr>"

definition TABLE_NAME :: string where
  "TABLE_NAME = ''projects''"

definition to_project :: "row \<Rightarrow> project" where
  "to_project p =
     \<lparr>id_field = id_field p, owner_id = owner_id p, created_at = created_at p,
      title = title p, description = description p, technologies = technologies p,
      githubUrl = githubUrl p, liveDemoUrl = liveDemoUrl p,
      createdAt = Date (created_at p)\<rparr>"

text \<open>
  The guard \<open>!supabase || !userId\<close> of the three mutations: it passes with the client
  and the identity when the handle is set and the identity is a non-empty string.
\<close>

definition ready :: "client option \<Rightarrow> jsstring option \<Rightarrow> (client \<times> jsstring) option" where
  "ready sb uid =
     (case sb of
        None \<Rightarrow> None
      | Some c \<Rightarrow> (case uid of None \<Rightarrow> None | Some u \<Rightarrow> if truthy u then Some (c, u) else None))"

definition select_request :: "jsstring \<Rightarrow> request" where
  "select_request uid =
     Select TABLE_NAME ''*'' [Eq ''owner_id'' (JStr uid)] (Some (''created_at'', False))"

text \<open>
  \<open>fetchProjects\<close>: a rejected promise, a reply with an error, and a reply whose data
  is null (\<open>data.map\<close> throws) all end in the \<open>catch\<close> block; \<open>finally\<close> clears
  \<open>loading\<close>.
\<close>

definition fetchProjects :: "client \<Rightarrow> jsstring \<Rightarrow> repo_state \<Rightarrow> repo_state \<times> request list" where
  "fetchProjects sb uid st =
     (let req = select_request uid;
          failed = st\<lparr>error :=
            Some ''Failed to load projects. Ensure the 'projects' table is created in Supabase.''\<rparr>
      in ((case sb req of
             Rejected \<Rightarrow> failed
           | Reply d (Some e) \<Rightarrow> failed
           | Reply None None \<Rightarrow> failed
           | Reply (Some rows) None \<Rightarrow> st\<lparr>projects := map to_project rows, error := None\<rparr>)
          \<lparr>loading := False\<rparr>, [req]))"

text \<open>The replies with which the query of \<open>fetchProjects\<close> fails.\<close>

definition fetch_failed :: "reply \<Rightarrow> bool" where
  "fetch_failed r =
     (case r of
        Rejected \<Rightarrow> True
      | Reply d (Some e) \<Rightarrow> True
      | Reply None None \<Rightarrow> True
      | Reply (Some rows) None \<Rightarrow> False)"

text \<open>
  The effect of \<open>useProjects\<close>: until the identity is ready, the handle set and the
  identity not empty it only sets \<open>loading\<close>; otherwise it subscribes, and the
  subscription holds the client and the identity that \<open>fetchProjects\<close> closes over.
  The channel fetches on the status \<open>SUBSCRIBED\<close> and on every change notification,
  and on nothing else.
\<close>

definition useProjects_effect ::
  "client option \<Rightarrow> auth_state \<Rightarrow> repo_state \<Rightarrow> repo_state \<times> (client \<times> jsstring) option" where
  "useProjects_effect sb auth st =
     (if \<not> isAuthReady auth then (st\<lparr>loading := True\<rparr>, None)
      else case ready sb (userId auth) of
             None \<Rightarrow> (st\<lparr>loading := True\<rparr>, None)
           | Some sub \<Rightarrow> (st, Some sub))"

datatype channel_event = Status string | Change

definition on_channel_event ::
  "client \<times> jsstring \<Rightarrow> channel_event \<Rightarrow> repo_state \<Rightarrow> repo_state \<times> request list" where
  "on_channel_event sub ev st =
     (case ev of
        Change \<Rightarrow> fetchProjects (fst sub) (snd sub) st
      | Status s \<Rightarrow>
          if s = ''SUBSCRIBED'' then fetchProjects (fst sub) (snd sub) st else (st, []))"

definition not_ready :: string where
  "not_ready = ''Error: Supabase not ready or User ID missing.''"

definition mutation_result ::
  "client \<Rightarrow> request \<Rightarrow> string \<Rightarrow> repo_state \<Rightarrow> repo_state \<times> request list" where
  "mutation_result c req msg st =
     ((case c req of
         Rejected \<Rightarrow> st\<lparr>error := Some msg\<rparr>
       | Reply d (Some e) \<Rightarrow> st\<lparr>error := Some msg\<rparr>
       | Reply d None \<Rightarrow> st\<lparr>error := None\<rparr>), [req])"

text \<open>The replies with which a mutation succeeds: resolved, with no error.\<close>

definition succeeded :: "reply \<Rightarrow> bool" where
  "succeeded r = (case r of Rejected \<Rightarrow> False | Reply d e \<Rightarrow> e = None)"

definition insert_request :: "jsstring \<Rightarrow> jsobject \<Rightarrow> request" where
  "insert_request uid newProject =
     Insert TABLE_NAME (AList.update ''owner_id'' (JStr uid) newProject)"

definition addProject ::
  "client option \<Rightarrow> jsstring option \<Rightarrow> jsobject \<Rightarrow> repo_state \<Rightarrow> repo_state \<times> request list" where
  "addProject sb uid newProject st =
     (case ready sb uid of
        None \<Rightarrow> (st\<lparr>error := Some not_ready\<rparr>, [])
      | Some (c, u) \<Rightarrow>
          mutation_result c (insert_request u newProject)
            ''Failed to add project. Ensure table and RLS policies are correct.'' st)"

definition update_request :: "jsval \<Rightarrow> jsobject \<Rightarrow> request" where
  "update_request i updatedFields =
     (let fieldsToUpdate = AList.delete ''id'' updatedFields
      in Update TABLE_NAME fieldsToUpdate [Eq ''id'' i])"

definition updateProject ::
  "client option \<Rightarrow> jsstring option \<Rightarrow> jsval \<Rightarrow> jsobject \<Rightarrow> repo_state
     \<Rightarrow> repo_state \<times> request list" where
  "updateProject sb uid i updatedFields st =
     (case ready sb uid of
        None \<Rightarrow> (st\<lparr>error := Some not_ready\<rparr>, [])
      | Some (c, u) \<Rightarrow>
          mutation_result c (update_request i updatedFields)
                 ''Failed to save changes. Check RLS policies.'' st)"

definition delete_request :: "jsval \<Rightarrow> request" where
  "delete_request i = Delete TABLE_NAME [Eq ''id'' i]"

definition deleteProject ::
  "client option \<Rightarrow> jsstring option \<Rightarrow> jsval \<Rightarrow> repo_state \<Rightarrow> repo_state \<times> request list" where
  "deleteProject sb uid i st =
     (case ready sb uid of
        None \<Rightarrow> (st\<lparr>error := Some not_ready\<rparr>, [])
      | Some (c, u) \<Rightarrow>
          mutation_result c (delete_request i)
                 ''Failed to delete project. Check RLS policies.'' st)"

section \<open>Debounce utility\<close>

text \<open>
  \<open>debounce(func, delay)\<close> returns a closure over one variable, \<open>timeoutId\<close>. The
  closure and the timer it sets live in the browser's event loop, so the wrapped function
  is modelled by what two kinds of event do to a state holding the clock (milliseconds),
  the pending timer of the closure (when it is due and the arguments it will pass), and
  the world \<open>func\<close> acts on:
  \<^item> \<open>Invoke args\<close>, a call of the wrapped function: \<open>clearTimeout\<close> cancels the
    pending timer and \<open>setTimeout\<close> sets a new one, due after \<open>delay\<close>;
  \<^item> \<open>Tick n\<close>, control returns to the event loop while \<open>n\<close> milliseconds pass: a
    pending timer that is due by then fires, calling \<open>func\<close> with its arguments.
  Calls with no \<open>Tick\<close> between them are made from one synchronous run of code.
\<close>

record ('a, 'w) timers =
  now :: nat
  timeoutId :: "(nat \<times> 'a) option"
  world :: 'w

datatype 'a event = Invoke 'a | Tick nat

definition debounce ::
  "('a \<Rightarrow> 'w \<Rightarrow> 'w) \<Rightarrow> nat \<Rightarrow> 'a event \<Rightarrow> ('a, 'w) timers \<Rightarrow> ('a, 'w) timers" where
  "debounce func delay ev s =
     (case ev of
        Invoke args \<Rightarrow> s\<lparr>timeoutId := Some (now s + delay, args)\<rparr>
      | Tick n \<Rightarrow>
          (let t = now s + n
           in case timeoutId s of
                None \<Rightarrow> s\<lparr>now := t\<rparr>
              | Some (due, args) \<Rightarrow>
                  if due \<le> t
                  then s\<lparr>now := t, timeoutId := None, world := func args (world s)\<rparr>
                  else s\<lparr>now := t\<rparr>))"

definition run_events ::
  "('a \<Rightarrow> 'w \<Rightarrow> 'w) \<Rightarrow> nat \<Rightarrow> 'a event list \<Rightarrow> ('a, 'w) timers \<Rightarrow> ('a, 'w) timers" where
  "run_events func delay evs s = foldl (\<lambda>s ev. debounce func delay ev s) s evs"

text \<open>
  A burst: a first call, then further calls, each \<open>g\<close> milliseconds after the one
  before it, then \<open>quiet\<close> milliseconds with no call.
\<close>

definition burst :: "'a \<Rightarrow> (nat \<times> 'a) list \<Rightarrow> nat \<Rightarrow> 'a event list" where
  "burst a rest quiet = Invoke a # concat (map (\<lambda>(g, b). [Tick g, Invoke b]) rest) @ [Tick quiet]"

text \<open>An action that records the arguments of each of its executions.\<close>

definition record_call :: "'a \<Rightarrow> 'a list \<Rightarrow> 'a list" where
  "record_call args calls = calls @ [args]"

text \<open>
  The \<open>addProject\<close> that \<open>useProjects\<close> returns is \<open>debounce(addProject, 300)\<close>. Its
  world is the repository state and the requests sent so far.
\<close>

definition add_to_world ::
  "client option \<Rightarrow> jsstring option \<Rightarrow> jsobject \<Rightarrow> repo_state \<times> request list
     \<Rightarrow> repo_state \<times> request list" where
  "add_to_world sb uid newProject w =
     (let (st, reqs) = addProject sb uid newProject (fst w) in (st, snd w @ reqs))"

definition addProject_debounced ::
  "client option \<Rightarrow> jsstring option \<Rightarrow> jsobject event
     \<Rightarrow> (jsobject, repo_state \<times> request list) timers
     \<Rightarrow> (jsobject, repo_state \<times> request list) timers" where
  "addProject_debounced sb uid = debounce (add_to_world sb uid) 300"

section \<open>Seeding of the example projects\<close>

definition seed_movie :: jsobject where
  "seed_movie =
     [(''title'', JStr (js ''Movie Ticket Booking System'')),
      (''description'', JStr (js ''Developed a robust ticketing platform featuring real-time seat availability, flexible show timing selection, and a secure booking workflow. This project highlights proficiency in full-stack web development, specifically managing transactional data integrity and delivering a highly responsive user experience. It serves as a foundational example of a high-utility, public-facing service.'')),
      (''technologies'', JStr (js ''PHP, MySQL, JavaScript, HTML, CSS'')),
      (''githubUrl'', JStr (js ''https://github.com/Ansen-2255/movie-booking-system'')),
      (''liveDemoUrl'', JStr (js ''#''))]"

definition seed_ats :: jsobject where
  "seed_ats =
     [(''title'', JStr (js ''Applicant Tracking System (ATS)'')),
      (''description'', JStr (js ''Developed a complete Applicant Tracking System designed to streamline the recruitment process for businesses. The platform includes essential modules for posting job openings, managing candidate registration, facilitating secure resume uploads, and providing an administrative dashboard for full oversight. This project demonstrates strong backend data management capabilities and the creation of a multi-user, role-based web utility.'')),
      (''technologies'', JStr (js ''HTML, PHP, MySQL'')),
      (''githubUrl'', JStr (js ''https://github.com/Ansen-2255/ATS-Applicant-Tracking-System-'')),
      (''liveDemoUrl'', JStr (js ''#''))]"

definition seed_hangman :: jsobject where
  "seed_hangman =
     [(''title'', JStr (js ''Hangman App'')),
      (''description'', JStr (js ''Developed a classic Hangman word-guessing game tailored for the Android platform. This mobile application utilizes Java and Android Studio to manage game state, user input, and dynamic UI rendering based on player attempts. The project showcases practical mobile development skills, user interface design, and state management within an activity lifecycle, and fundamental game logic implementation.'')),
      (''technologies'', JStr (js ''Android Studio, Java, Mobile Development'')),
      (''githubUrl'', JStr (js ''https://github.com/Ansen-2255/hangman-mobile-application'')),
      (''liveDemoUrl'', JStr (js ''#''))]"

definition initialProjectsData :: "jsobject list" where
  "initialProjectsData = [seed_movie, seed_ats, seed_hangman]"

text \<open>
  The seeding effect of \<open>App\<close>: the timer it sets (delay and the projects its callback
  will add), or none.
\<close>

definition seed_effect :: "auth_state \<Rightarrow> repo_state \<Rightarrow> (nat \<times> jsobject list) option" where
  "seed_effect auth st =
     (if \<not> isAppOwner auth \<or> loading st \<or> length (projects st) > 0 then None
      else if length (projects st) = 0 then Some (1500, initialProjectsData)
      else None)"

text \<open>
  The callback of the seeding timer: \<open>forEach\<close> calls the debounced \<open>addProject\<close>
  once per project, in one synchronous run.
\<close>

definition seed_callback ::
  "client option \<Rightarrow> jsstring option \<Rightarrow> jsobject list
     \<Rightarrow> (jsobject, repo_state \<times> request list) timers
     \<Rightarrow> (jsobject, repo_state \<times> request list) timers" where
  "seed_callback sb uid ps s = foldl (\<lambda>s p. addProject_debounced sb uid (Invoke p) s) s ps"

text \<open>
  Seeding from a state \<open>s\<close>: if the effect sets its timer, the delay passes, the
  callback runs, and then \<open>settle\<close> more milliseconds pass.
\<close>

definition seeding ::
  "client option \<Rightarrow> auth_state \<Rightarrow> nat
     \<Rightarrow> (jsobject, repo_state \<times> request list) timers
     \<Rightarrow> (jsobject, repo_state \<times> request list) timers" where
  "seeding sb auth settle s =
     (case seed_effect auth (fst (world s)) of
        None \<Rightarrow> s
      | Some (d, ps) \<Rightarrow>
          addProject_debounced sb (userId auth) (Tick settle)
            (seed_callback sb (userId auth) ps
               (addProject_debounced sb (userId auth) (Tick d) s)))"

section \<open>Manager mode\<close>

text \<open>
  The state of \<open>App\<close>, the toggle handler (it returns the new state and what it wrote
  to the console), and the conditions under which \<open>App\<close> renders the toggle button, the
  owner-only panels and the access-denied box.
\<close>

record app_state =
  isManagerMode :: bool
  activeTag :: "jsstring option"
  currentProject :: "project option"

definition initial_app :: app_state where
  "initial_app = \<lparr>isManagerMode = False, activeTag = None, currentProject = None\<rparr>"

definition canManage :: "auth_state \<Rightarrow> bool" where
  "canManage auth = (isAuthReady auth \<and> isAppOwner auth)"

definition handleToggleManager :: "auth_state \<Rightarrow> app_state \<Rightarrow> app_state \<times> string list" where
  "handleToggleManager auth app =
     (if canManage auth
      then (app\<lparr>isManagerMode := \<not> isManagerMode app, currentProject := None\<rparr>, [])
      else (app, [''Access Denied: Only the owner (as defined by VITE_APP_OWNER_ID) can access Manager Mode.'']))"

definition renders_toggle_button :: "auth_state \<Rightarrow> bool" where
  "renders_toggle_button auth = isAuthReady auth"

definition renders_manager_panels :: "auth_state \<Rightarrow> app_state \<Rightarrow> bool" where
  "renders_manager_panels auth app = (isManagerMode app \<and> canManage auth)"

definition renders_access_denied :: "auth_state \<Rightarrow> app_state \<Rightarrow> bool" where
  "renders_access_denied auth app = (isManagerMode app \<and> \<not> canManage auth)"

section \<open>Description-drafting client\<close>

text \<open>
  The JSON of a generation response, as far as
  \<open>result.candidates?.[0]?.content?.parts?.[0]?.text\<close> reads it: every property on the
  path may be absent and both arrays may be empty.
\<close>

datatype part = Part "jsstring option"

datatype content = Content "part list option"

datatype candidate = Candidate "content option"

datatype gen_result = GenResult "candidate list option"

fun first_text :: "gen_result \<Rightarrow> jsstring option" where
  "first_text (GenResult None) = None"
| "first_text (GenResult (Some [])) = None"
| "first_text (GenResult (Some (Candidate None # cs))) = None"
| "first_text (GenResult (Some (Candidate (Some (Content None)) # cs))) = None"
| "first_text (GenResult (Some (Candidate (Some (Content (Some []))) # cs))) = None"
| "first_text (GenResult (Some (Candidate (Some (Content (Some (Part t # ps)))) # cs))) = t"

text \<open>
  What one \<open>fetch\<close> gives: the promise rejects, or it resolves to a response with
  \<open>ok\<close>, \<open>status\<close> and a body that \<open>response.json()\<close> parses or fails to parse
  (\<open>None\<close>). An attempt succeeds with a text only when the response is ok, the body
  parses and the first candidate's text is there and not empty; everything else is thrown
  and caught.
\<close>

datatype http_response = Response bool nat "gen_result option"

datatype fetch_outcome = NetworkError | Fetched http_response

fun attempt_text :: "fetch_outcome \<Rightarrow> jsstring option" where
  "attempt_text NetworkError = None"
| "attempt_text (Fetched (Response ok status body)) =
     (if \<not> ok then None
      else case body of
             None \<Rightarrow> None
           | Some result \<Rightarrow>
               (case first_text result of
                  None \<Rightarrow> None
                | Some t \<Rightarrow> if truthy t then Some t else None))"

text \<open>
  The state of the drafting tool with the description field of the form it writes to,
  and what the run did: the number of requests sent and the delays waited, in order.
\<close>

record draft_state =
  isLoading :: bool
  draft_error :: "string option"
  form_description :: jsstring
  requests :: nat
  waits :: "nat list"

definition MAX_RETRIES :: nat where
  "MAX_RETRIES = 3"

definition INITIAL_DELAY_MS :: nat where
  "INITIAL_DELAY_MS = 1000"

text \<open>
  The retry loop from \<open>attempt\<close> on; \<open>api k\<close> is the outcome of the \<open>fetch\<close> of
  attempt \<open>k\<close>.
\<close>

function attempt_loop :: "(nat \<Rightarrow> fetch_outcome) \<Rightarrow> nat \<Rightarrow> draft_state \<Rightarrow> draft_state" where
  "attempt_loop api attempt d =
     (if attempt \<le> MAX_RETRIES
      then
        (let d1 = d\<lparr>requests := requests d + 1\<rparr>
         in case attempt_text (api attempt) of
              Some t \<Rightarrow> d1\<lparr>form_description := trim t, isLoading := False\<rparr>
            | None \<Rightarrow>
                if attempt = MAX_RETRIES
                then d1\<lparr>draft_error :=
                         Some ''Failed to generate description after multiple attempts.'',
                       isLoading := False\<rparr>
                else attempt_loop api (attempt + 1)
                       (d1\<lparr>waits := waits d1 @ [INITIAL_DELAY_MS * 2 ^ (attempt - 1)]\<rparr>))
      else d)"
  by pat_completeness auto
termination
  by (relation "measure (\<lambda>(api, attempt, d). MAX_RETRIES + 1 - attempt)") auto

definition generateProjectDescription ::
  "jsstring \<Rightarrow> jsstring \<Rightarrow> (nat \<Rightarrow> fetch_outcome) \<Rightarrow> draft_state \<Rightarrow> draft_state" where
  "generateProjectDescription title_in technologies_in api d =
     (if \<not> truthy title_in \<or> \<not> truthy technologies_in
      then d\<lparr>draft_error := Some ''Please fill in the Title and Technologies fields first.''\<rparr>
      else attempt_loop api 1 (d\<lparr>isLoading := True, draft_error := None\<rparr>))"

text \<open>A successful response whose first candidate has the text \<open>t\<close>, and a fresh tool.\<close>

definition gen_text :: "jsstring \<Rightarrow> fetch_outcome" where
  "gen_text t =
     Fetched (Response True 200
       (Some (GenResult (Some [Candidate (Some (Content (Some [Part (Some t)])))]))))"

text \<open>
  Two services for examples: one whose first request fails in transport, whose second
  answers with no candidate and whose third answers with the text \<open>t\<close>; and one that
  always answers 503.
\<close>

definition third_succeeds :: "jsstring \<Rightarrow> nat \<Rightarrow> fetch_outcome" where
  "third_succeeds t k =
     (if k = 1 then NetworkError
      else if k = 2 then Fetched (Response True 200 (Some (GenResult (Some []))))
      else gen_text t)"

definition always_fails :: "nat \<Rightarrow> fetch_outcome" where
  "always_fails k = Fetched (Response False 503 None)"

definition initial_draft :: draft_state where
  "initial_draft =
     \<lparr>isLoading = False, draft_error = None, form_description = [], requests = 0, waits = []\<rparr>"

section \<open>Properties of the technology tags\<close>

lemma split_from_not_Nil: "split_from cur s \<noteq> []"
  by (induction s arbitrary: cur) auto

lemma join_comma_Cons: "ts \<noteq> [] \<Longrightarrow> join_comma (t # ts) = t @ comma # join_comma ts"
  by (cases ts) auto

lemma join_split_from: "join_comma (split_from cur s) = rev cur @ s"
  by (induction s arbitrary: cur) (auto simp: join_comma_Cons split_from_not_Nil)

lemma join_split_comma: "join_comma (split_comma s) = s"
  by (simp add: split_comma_def join_split_from)

lemma split_from_no_comma:
  "t \<in> set (split_from cur s) \<Longrightarrow> comma \<notin> set cur \<Longrightarrow> comma \<notin> set t"
proof (induction s arbitrary: cur)
  case Nil
  then show ?case by auto
next
  case (Cons c cs)
  show ?case
  proof (cases "c = comma")
    case True
    with Cons.prems have "t = rev cur \<or> t \<in> set (split_from [] cs)"
      by simp
    then show ?thesis
      using Cons.prems(2) Cons.IH [of "[]"] by auto
  next
    case False
    with Cons.prems have "t \<in> set (split_from (c # cur) cs)" and "comma \<notin> set (c # cur)"
      by auto
    then show ?thesis by (rule Cons.IH)
  qed
qed

lemma split_comma_no_comma: "t \<in> set (split_comma s) \<Longrightarrow> comma \<notin> set t"
  by (auto simp: split_comma_def dest: split_from_no_comma)


lemma set_set_add: "set (set_add x tags) = insert x (set tags)"
  by (auto simp: set_add_def)

lemma distinct_set_add: "distinct tags \<Longrightarrow> distinct (set_add x tags)"
  by (simp add: set_add_def)

lemma set_foldl_add_tech:
  "set (foldl add_tech tags ts) = set tags \<union> {trim t | t. t \<in> set ts \<and> trim t \<noteq> []}"
  by (induction ts arbitrary: tags) (auto simp: add_tech_def truthy_def set_set_add)

lemma distinct_foldl_add_tech: "distinct tags \<Longrightarrow> distinct (foldl add_tech tags ts)"
  by (induction ts arbitrary: tags) (simp_all add: add_tech_def distinct_set_add)

lemma set_add_project_tags:
  "set (add_project_tags tags p) = set tags \<union> tokens_of [p]"
  by (auto simp: add_project_tags_def tokens_of_def set_foldl_add_tech split: option.splits)

lemma distinct_add_project_tags: "distinct tags \<Longrightarrow> distinct (add_project_tags tags p)"
  by (simp add: add_project_tags_def distinct_foldl_add_tech split: option.splits)

lemma tokens_of_Cons: "tokens_of (p # ps) = tokens_of [p] \<union> tokens_of ps"
  by (auto simp: tokens_of_def)

lemma set_foldl_add_project_tags:
  "set (foldl add_project_tags tags ps) = set tags \<union> tokens_of ps"
proof (induction ps arbitrary: tags)
  case Nil
  show ?case by (simp add: tokens_of_def)
next
  case (Cons p ps)
  have "set (foldl add_project_tags tags (p # ps)) = set (add_project_tags tags p) \<union> tokens_of ps"
    using Cons.IH by simp
  also have "\<dots> = set tags \<union> (tokens_of [p] \<union> tokens_of ps)"
    by (simp add: set_add_project_tags Un_assoc)
  finally show ?case
    by (simp add: tokens_of_Cons [of p ps])
qed

lemma distinct_foldl_add_project_tags:
  "distinct tags \<Longrightarrow> distinct (foldl add_project_tags tags ps)"
  by (induction ps arbitrary: tags) (simp_all add: distinct_add_project_tags)

lemma set_allTags: "set (allTags ps) = tokens_of ps"
  by (simp add: allTags_def set_foldl_add_project_tags)

lemma distinct_allTags: "distinct (allTags ps)"
  by (simp add: allTags_def distinct_foldl_add_project_tags)

lemma sorted_allTags: "sorted (allTags ps)"
  by (simp add: allTags_def)

lemma tokens_of_set: "set ps' = set ps \<Longrightarrow> tokens_of ps' = tokens_of ps"
  by (simp add: tokens_of_def)

lemma allTags_cong_set:
  assumes "set ps' = set ps"
  shows "allTags ps' = allTags ps"
proof -
  have "set (allTags ps') = set (allTags ps)"
    by (simp only: set_allTags tokens_of_set [OF assms])
  then show ?thesis
    by (intro sorted_distinct_set_unique) (simp_all add: sorted_allTags distinct_allTags)
qed

text \<open>
  Claim C8. For every list of loaded projects, the tag list \<open>allTags\<close> holds exactly
  the trimmed, non-empty pieces that splitting the projects' technology fields on commas
  gives, each of them once, in ascending lexicographic order; so two project lists with
  the same projects, in any order and with any repetitions, have the same tag list.
\<close>

theorem allTags_sorted_dedup:
  "set (allTags ps) = tokens_of ps \<and> distinct (allTags ps) \<and> sorted (allTags ps)
   \<and> (\<forall>ps'. set ps' = set ps \<longrightarrow> allTags ps' = allTags ps)"
proof (intro conjI allI impI)
  show "set (allTags ps) = tokens_of ps" by (rule set_allTags)
  show "distinct (allTags ps)" by (rule distinct_allTags)
  show "sorted (allTags ps)" by (rule sorted_allTags)
  show "allTags ps' = allTags ps" if "set ps' = set ps" for ps'
    using that by (rule allTags_cong_set)
qed

lemma allTags_example:
  "allTags [mk_project 1 (Some (js ''React, Node'')), mk_project 2 (Some (js '' Node,,CSS ,''))]
   = [js ''CSS'', js ''Node'', js ''React'']"
  by (simp add: allTags_def add_project_tags_def mk_project_def split_comma_def comma_def
      add_tech_def truthy_def trim_def is_whitespace_def set_add_def js_def)

theorem allTags_sorted_dedup_witness:
  "allTags [mk_project 2 (Some (js '' Node,,CSS ,'')), mk_project 1 (Some (js ''React, Node'')),
            mk_project 2 (Some (js '' Node,,CSS ,''))]
   = [js ''CSS'', js ''Node'', js ''React'']
   \<and> sorted [js ''CSS'', js ''Node'', js ''React'']
   \<and> distinct [js ''CSS'', js ''Node'', js ''React'']"
proof -
  let ?p1 = "mk_project 1 (Some (js ''React, Node''))"
  let ?p2 = "mk_project 2 (Some (js '' Node,,CSS ,''))"
  have same: "set [?p2, ?p1, ?p2] = set [?p1, ?p2]"
    by auto
  from allTags_sorted_dedup [of "[?p1, ?p2]"]
  have "allTags [?p2, ?p1, ?p2] = allTags [?p1, ?p2]"
    and "distinct (allTags [?p1, ?p2])" and "sorted (allTags [?p1, ?p2])"
    using same by blast+
  then show ?thesis
    by (simp only: allTags_example simp_thms)
qed

section \<open>Properties of the tag filter\<close>

lemma includes_str_sublist: "includes_str s t = sublist t s"
  by (induction s) (auto simp: sublist_Cons_right)

lemma filteredProjects_active:
  "t \<noteq> [] \<Longrightarrow> filteredProjects lc ps (Some t) = filter (contains_ci lc t) ps"
  unfolding filteredProjects_def contains_ci_def truthy_def
  by (auto simp: includes_str_sublist Let_def intro!: filter_cong split: option.splits)

lemma handleTagClick_twice: "a \<noteq> Some t \<Longrightarrow> handleTagClick (handleTagClick a t) t = None"
  by (simp add: handleTagClick_def)

lemma allTags_not_empty: "t \<in> set (allTags ps) \<Longrightarrow> t \<noteq> []"
  by (auto simp: set_allTags tokens_of_def)

text \<open>
  Claim C9. Let \<open>t\<close> be a tag (the tags of \<open>allTags\<close> are never empty) and let the
  active tag \<open>a\<close> be none or another tag. Selecting \<open>t\<close> makes it the one active tag,
  and the displayed list is then exactly the projects, in their order, whose technology
  text contains \<open>t\<close> as a case-insensitive substring. Selecting \<open>t\<close> again clears the
  active tag, and the displayed list is the whole project list, as it is with no filter.
\<close>

theorem tag_filter_toggle:
  assumes "t \<noteq> []" and "a \<noteq> Some t"
  shows "handleTagClick a t = Some t
     \<and> filteredProjects lc ps (handleTagClick a t) = filter (contains_ci lc t) ps
     \<and> handleTagClick (handleTagClick a t) t = None
     \<and> filteredProjects lc ps (handleTagClick (handleTagClick a t) t) = ps
     \<and> filteredProjects lc ps None = ps"
proof -
  have first: "handleTagClick a t = Some t"
    using assms(2) by (simp add: handleTagClick_def)
  have second: "handleTagClick (handleTagClick a t) t = None"
    using assms(2) by (rule handleTagClick_twice)
  have cleared: "filteredProjects lc ps None = ps"
    by (simp add: filteredProjects_def)
  show ?thesis
    unfolding second unfolding first
    using cleared filteredProjects_active [OF assms(1)] by simp
qed

lemma filteredProjects_example:
  "filteredProjects ascii_lower
     [mk_project 1 (Some (js ''React, Node'')), mk_project 2 None,
      mk_project 3 (Some (js ''NODE.js, CSS'')), mk_project 4 (Some (js ''PHP''))]
     (Some (js ''Node''))
   = [mk_project 1 (Some (js ''React, Node'')), mk_project 3 (Some (js ''NODE.js, CSS''))]"
  by (simp add: filteredProjects_def truthy_def js_def ascii_lower_def mk_project_def)

theorem tag_filter_toggle_witness:
  "filter (contains_ci ascii_lower (js ''Node''))
     [mk_project 1 (Some (js ''React, Node'')), mk_project 2 None,
      mk_project 3 (Some (js ''NODE.js, CSS'')), mk_project 4 (Some (js ''PHP''))]
   = [mk_project 1 (Some (js ''React, Node'')), mk_project 3 (Some (js ''NODE.js, CSS''))]
   \<and> filteredProjects ascii_lower
       [mk_project 1 (Some (js ''React, Node'')), mk_project 2 None,
        mk_project 3 (Some (js ''NODE.js, CSS'')), mk_project 4 (Some (js ''PHP''))]
       (handleTagClick (handleTagClick (Some (js ''PHP'')) (js ''Node'')) (js ''Node''))
     = [mk_project 1 (Some (js ''React, Node'')), mk_project 2 None,
        mk_project 3 (Some (js ''NODE.js, CSS'')), mk_project 4 (Some (js ''PHP''))]"
proof -
  let ?ps = "[mk_project 1 (Some (js ''React, Node'')), mk_project 2 None,
      mk_project 3 (Some (js ''NODE.js, CSS'')), mk_project 4 (Some (js ''PHP''))]"
  have tag: "js ''Node'' \<noteq> []"
    by (simp add: js_def)
  have other: "Some (js ''PHP'') \<noteq> Some (js ''Node'')"
    by (simp add: js_def)
  note t = tag_filter_toggle [OF tag other, where lc = ascii_lower and ps = ?ps]
  have sel: "handleTagClick (Some (js ''PHP'')) (js ''Node'') = Some (js ''Node'')"
    using t by blast
  have shown: "filteredProjects ascii_lower ?ps (Some (js ''Node''))
      = filter (contains_ci ascii_lower (js ''Node'')) ?ps"
    using t unfolding sel by blast
  have again: "filteredProjects ascii_lower ?ps
      (handleTagClick (handleTagClick (Some (js ''PHP'')) (js ''Node'')) (js ''Node'')) = ?ps"
    using t by blast
  show ?thesis
    using shown again by (simp only: filteredProjects_example simp_thms)
qed

section \<open>Properties of the debounce utility\<close>






text \<open>
  A call that comes exactly when the pending timer is due does not replace it: both
  calls run.
\<close>

lemma debounce_gap_at_delay:
  "world (run_events record_call 300 (burst (1::nat) [(100, 2), (300, 3)] 300)
      \<lparr>now = 0, timeoutId = None, world = []\<rparr>) = [2, 3]"
  by (simp add: run_events_def burst_def debounce_def record_call_def)

section \<open>Properties of the project repository client\<close>

lemma select_owner_scoped: "owner_scoped uid (select_request uid)"
  by (simp add: select_request_def has_owner_filter_def)

lemma insert_owner_scoped: "owner_scoped uid (insert_request uid newProject)"
  by (simp add: insert_request_def update_conv')

lemma update_request_filters: "filters_of (update_request i updatedFields) = [Eq ''id'' i]"
  by (simp add: update_request_def)

lemma delete_request_filters: "filters_of (delete_request i) = [Eq ''id'' i]"
  by (simp add: delete_request_def)

text \<open>
  Claim C1. The select filters on \<open>owner_id = userId\<close> and the insert writes
  \<open>owner_id = userId\<close> into its row (\<open>select_owner_scoped\<close>, \<open>insert_owner_scoped\<close>),
  but the update and the delete carry the single filter \<open>id = id\<close>: with the identity
  \<open>u1\<close> resolved, \<open>updateProject(7, {id: 7, title: 'New title'})\<close> and
  \<open>deleteProject(7)\<close> send requests with no owner filter.
\<close>

theorem update_delete_not_owner_scoped:
  "snd (updateProject (Some (\<lambda>req. Reply None None)) (Some (js ''u1'')) (JNum 7)
          [(''id'', JNum 7), (''title'', JStr (js ''New title''))] initial_repo)
     = [Update ''projects'' [(''title'', JStr (js ''New title''))] [Eq ''id'' (JNum 7)]]
   \<and> \<not> owner_scoped (js ''u1'')
         (Update ''projects'' [(''title'', JStr (js ''New title''))] [Eq ''id'' (JNum 7)])
   \<and> snd (deleteProject (Some (\<lambda>req. Reply None None)) (Some (js ''u1'')) (JNum 7) initial_repo)
     = [Delete ''projects'' [Eq ''id'' (JNum 7)]]
   \<and> \<not> owner_scoped (js ''u1'') (Delete ''projects'' [Eq ''id'' (JNum 7)])"
  by (simp add: updateProject_def deleteProject_def ready_def truthy_def js_def
      mutation_result_def update_request_def delete_request_def TABLE_NAME_def
      has_owner_filter_def AList.delete_eq)

text \<open>
  Claim C4, as amended. When the query of \<open>fetchProjects\<close> fails (the promise rejects,
  the reply carries an error, or its data is null), the error string is set, \<open>loading\<close>
  is cleared, the project list is left as it was (so it is empty when it was empty,
  as it is before the first successful query), and the one request sent is the query
  itself: nothing is retried.
\<close>

theorem fetch_failure:
  assumes "fetch_failed (sb (select_request uid))"
  shows "fetchProjects sb uid st =
           (st\<lparr>error :=
                 Some ''Failed to load projects. Ensure the 'projects' table is created in Supabase.'',
               loading := False\<rparr>, [select_request uid])
       \<and> projects (fst (fetchProjects sb uid st)) = projects st
       \<and> (projects st = [] \<longrightarrow> projects (fst (fetchProjects sb uid st)) = [])
       \<and> length (snd (fetchProjects sb uid st)) = 1"
  using assms
  by (auto simp: fetchProjects_def fetch_failed_def Let_def split: reply.splits option.splits)

theorem fetch_failure_witness:
  "fetchProjects (\<lambda>req. Reply None (Some (ServiceError (js ''relation does not exist''))))
     (js ''abc123'') initial_repo
    = (\<lparr>projects = [], loading = False,
        error = Some ''Failed to load projects. Ensure the 'projects' table is created in Supabase.''\<rparr>,
       [select_request (js ''abc123'')])"
proof -
  have "fetch_failed ((\<lambda>req. Reply None (Some (ServiceError (js ''relation does not exist''))))
      (select_request (js ''abc123'')))"
    by (simp add: fetch_failed_def)
  from fetch_failure [OF this, where st = initial_repo]
  show ?thesis by (simp add: initial_repo_def)
qed

text \<open>
  The claim as stated fails: a query that fails after an earlier one has loaded a project
  leaves that project in the list.
\<close>

theorem fetch_failure_counterexample:
  "fetch_failed Rejected
   \<and> projects (fst (fetchProjects (\<lambda>req. Rejected) (js ''abc123'')
        \<lparr>projects = [mk_project 1 None], loading = False, error = None\<rparr>)) \<noteq> []"
  by (simp add: fetchProjects_def fetch_failed_def)

text \<open>
  Claim C6. When the service handle is unset (as it is when the URL or the key is missing
  from the configuration) or the identity is not resolved, each of create, update and
  delete sets the error to the fixed string, sends no request and changes nothing else
  of the state; so does the debounced create that the hook hands out, once its timer has
  fired.
\<close>

theorem mutations_not_ready:
  assumes "sb = None \<or> uid = None"
  shows "addProject sb uid newProject st =
           (st\<lparr>error := Some ''Error: Supabase not ready or User ID missing.''\<rparr>, [])
       \<and> updateProject sb uid i updatedFields st =
           (st\<lparr>error := Some ''Error: Supabase not ready or User ID missing.''\<rparr>, [])
       \<and> deleteProject sb uid i st =
           (st\<lparr>error := Some ''Error: Supabase not ready or User ID missing.''\<rparr>, [])
       \<and> world (run_events (add_to_world sb uid) 300 [Invoke newProject, Tick 300] s) =
           ((fst (world s))\<lparr>error := Some ''Error: Supabase not ready or User ID missing.''\<rparr>,
            snd (world s))"
proof -
  have r: "ready sb uid = None"
    using assms by (auto simp: ready_def split: option.splits)
  show ?thesis
    by (simp add: addProject_def updateProject_def deleteProject_def r not_ready_def
        run_events_def debounce_def add_to_world_def)
qed

lemma supabase_absent:
  "url = None \<or> key = None \<Longrightarrow> supabase url key createClient = None"
  by (auto simp: supabase_def split: option.splits)

theorem mutations_not_ready_witness:
  "supabase None (Some (js ''anon-key'')) (\<lambda>url key req. Reply None None) = None
   \<and> addProject (supabase None (Some (js ''anon-key'')) (\<lambda>url key req. Reply None None))
       (Some (js ''abc123'')) seed_hangman initial_repo =
       (\<lparr>projects = [], loading = True,
         error = Some ''Error: Supabase not ready or User ID missing.''\<rparr>, [])
   \<and> deleteProject (Some (\<lambda>req. Reply None None)) None (JNum 7) initial_repo =
       (\<lparr>projects = [], loading = True,
         error = Some ''Error: Supabase not ready or User ID missing.''\<rparr>, [])"
proof -
  have a: "supabase None (Some (js ''anon-key'')) (\<lambda>url key req. Reply None None) = None
      \<or> Some (js ''abc123'') = None"
    by (simp add: supabase_def)
  have b: "Some (\<lambda>req. Reply None None) = None \<or> (None :: jsstring option) = None" by simp
  from mutations_not_ready [OF a, where newProject = seed_hangman and st = initial_repo]
    mutations_not_ready [OF b, where st = initial_repo and i = "JNum 7"]
  show ?thesis
    by (simp add: initial_repo_def supabase_def)
qed

text \<open>
  Claim C10. Each repository operation that completes successfully leaves the error at
  null, whatever it was before: the query when the reply carries rows and no error, and
  create, update and delete (with the handle set and the identity resolved) when the
  reply carries no error.
\<close>

theorem success_clears_error:
  "(c (select_request u) = Reply (Some rows) None \<longrightarrow> error (fst (fetchProjects c u st)) = None)
   \<and> (truthy u \<and> succeeded (c (insert_request u newProject))
        \<longrightarrow> error (fst (addProject (Some c) (Some u) newProject st)) = None)
   \<and> (truthy u \<and> succeeded (c (update_request i updatedFields))
        \<longrightarrow> error (fst (updateProject (Some c) (Some u) i updatedFields st)) = None)
   \<and> (truthy u \<and> succeeded (c (delete_request i))
        \<longrightarrow> error (fst (deleteProject (Some c) (Some u) i st)) = None)"
  by (auto simp: fetchProjects_def addProject_def updateProject_def deleteProject_def ready_def
      mutation_result_def succeeded_def Let_def split: reply.splits option.splits)

theorem success_clears_error_witness:
  "error (fst (fetchProjects (\<lambda>req. Reply (Some []) None) (js ''abc123'')
      \<lparr>projects = [], loading = False, error = Some ''Failed to delete project. Check RLS policies.''\<rparr>))
     = None
   \<and> error (fst (addProject (Some (\<lambda>req. Reply (Some []) None)) (Some (js ''abc123'')) seed_hangman
      \<lparr>projects = [], loading = False, error = Some ''Failed to delete project. Check RLS policies.''\<rparr>))
     = None
   \<and> error (fst (updateProject (Some (\<lambda>req. Reply (Some []) None)) (Some (js ''abc123'')) (JNum 7)
      [(''title'', JStr (js ''New title''))]
      \<lparr>projects = [], loading = False, error = Some ''Failed to delete project. Check RLS policies.''\<rparr>))
     = None
   \<and> error (fst (deleteProject (Some (\<lambda>req. Reply (Some []) None)) (Some (js ''abc123'')) (JNum 7)
      \<lparr>projects = [], loading = False, error = Some ''Failed to delete project. Check RLS policies.''\<rparr>))
     = None"
proof -
  let ?c = "\<lambda>req :: request. Reply (Some []) None"
  let ?st = "\<lparr>projects = [], loading = False,
    error = Some ''Failed to delete project. Check RLS policies.''\<rparr>"
  have u: "truthy (js ''abc123'')"
    by (simp add: truthy_def js_def)
  have ok: "succeeded (?c req)" for req
    by (simp add: succeeded_def)
  have sel: "?c (select_request (js ''abc123'')) = Reply (Some []) None"
    by simp
  from success_clears_error [where c = ?c and u = "js ''abc123''" and rows = "[]" and st = ?st
      and newProject = seed_hangman and i = "JNum 7"
      and updatedFields = "[(''title'', JStr (js ''New title''))]"]
  show ?thesis
    using u ok sel by blast
qed

section \<open>Properties of the seeding\<close>

lemma seed_effect_guard: "projects st \<noteq> [] \<Longrightarrow> seed_effect auth st = None"
  by (simp add: seed_effect_def)

lemma seeding_guard: "projects (fst (world s)) \<noteq> [] \<Longrightarrow> seeding sb auth settle s = s"
  by (simp add: seeding_def seed_effect_guard)

lemma truthy_abc123: "truthy (js ''abc123'')"
  by (simp add: truthy_def js_def)

text \<open>
  Claim C2. The owner \<open>abc123\<close> has an empty project list and loading is over. The
  seeding timer fires after its 1500 ms and its callback calls the debounced
  \<open>addProject\<close> for the three example projects in one synchronous run; each call cancels
  the timer of the one before it, so when the 300 ms of the debounce have passed the
  only insert sent is that of the last project, "Hangman App".
\<close>

theorem seeding_inserts_only_last:
  "snd (world (seeding (Some (\<lambda>req. Reply None None))
          \<lparr>userId = Some (js ''abc123''), isAuthReady = True, isAppOwner = True\<rparr> 300
          \<lparr>now = 0, timeoutId = None,
           world = (\<lparr>projects = [], loading = False, error = None\<rparr>, [])\<rparr>))
     = [insert_request (js ''abc123'') seed_hangman]
   \<and> length initialProjectsData = 3"
  by (simp add: seeding_def seed_effect_def seed_callback_def initialProjectsData_def
      addProject_debounced_def debounce_def add_to_world_def addProject_def ready_def
      truthy_abc123 mutation_result_def)

section \<open>Properties of the manager mode\<close>

text \<open>
  Manager mode is only ever switched on for a viewer who can manage, so the access-denied
  box, which needs manager mode on and a viewer who cannot manage, is never rendered.
\<close>

lemma never_access_denied:
  "\<not> renders_access_denied auth (((\<lambda>app. fst (handleToggleManager auth app)) ^^ n) initial_app)"
proof -
  have "isManagerMode (((\<lambda>app. fst (handleToggleManager auth app)) ^^ n) initial_app)
      \<longrightarrow> canManage auth"
    by (induction n) (auto simp: initial_app_def handleToggleManager_def)
  then show ?thesis by (auto simp: renders_access_denied_def)
qed

lemma owner_toggle_succeeds:
  "fst (useSupabaseAuth (Some c) (VERCEL_OWNER_ID (Some (js ''abc123''))) (Some (js ''abc123'')) uuid)
     = auth
   \<Longrightarrow> canManage auth \<and> renders_manager_panels auth (fst (handleToggleManager auth initial_app))"
  by (auto simp add: useSupabaseAuth_def VERCEL_OWNER_ID_def generatedId_def truthy_def js_def
      handleToggleManager_def canManage_def renders_manager_panels_def initial_app_def Let_def)

text \<open>
  Claim C5. With the owner token \<open>abc123\<close> configured and the identity \<open>xyz\<close> stored,
  the viewer is not the owner. A click on the toggle is refused: the state stays as it
  was and a warning goes to the console. Manager mode is still off, so neither the
  owner-only panels nor the access-denied box is rendered.
\<close>

theorem toggle_refused_without_message:
  "fst (useSupabaseAuth (Some (\<lambda>req. Reply None None)) (VERCEL_OWNER_ID (Some (js ''abc123'')))
          (Some (js ''xyz'')) (js ''uuid''))
     = \<lparr>userId = Some (js ''xyz''), isAuthReady = True, isAppOwner = False\<rparr>
   \<and> handleToggleManager \<lparr>userId = Some (js ''xyz''), isAuthReady = True, isAppOwner = False\<rparr>
        initial_app
     = (initial_app,
        [''Access Denied: Only the owner (as defined by VITE_APP_OWNER_ID) can access Manager Mode.''])
   \<and> \<not> renders_access_denied \<lparr>userId = Some (js ''xyz''), isAuthReady = True, isAppOwner = False\<rparr>
         initial_app
   \<and> \<not> renders_manager_panels \<lparr>userId = Some (js ''xyz''), isAuthReady = True, isAppOwner = False\<rparr>
         initial_app"
  by (simp add: useSupabaseAuth_def VERCEL_OWNER_ID_def generatedId_def truthy_def js_def
      handleToggleManager_def canManage_def renders_access_denied_def renders_manager_panels_def
      initial_app_def Let_def)

section \<open>Properties of the description-drafting client\<close>

declare attempt_loop.simps [simp del]

lemma attempt_loop_3:
  "attempt_loop api 3 d =
     (case attempt_text (api 3) of
        Some t \<Rightarrow> d\<lparr>requests := requests d + 1, form_description := trim t, isLoading := False\<rparr>
      | None \<Rightarrow> d\<lparr>requests := requests d + 1,
                  draft_error := Some ''Failed to generate description after multiple attempts.'',
                  isLoading := False\<rparr>)"
  by (subst attempt_loop.simps) (simp add: MAX_RETRIES_def Let_def split: option.splits)

lemma attempt_loop_2:
  "attempt_loop api 2 d =
     (case attempt_text (api 2) of
        Some t \<Rightarrow> d\<lparr>requests := requests d + 1, form_description := trim t, isLoading := False\<rparr>
      | None \<Rightarrow> attempt_loop api 3 (d\<lparr>requests := requests d + 1, waits := waits d @ [2000]\<rparr>))"
  by (subst attempt_loop.simps)
     (simp add: MAX_RETRIES_def INITIAL_DELAY_MS_def Let_def split: option.splits)

lemma attempt_loop_1:
  "attempt_loop api 1 d =
     (case attempt_text (api 1) of
        Some t \<Rightarrow> d\<lparr>requests := requests d + 1, form_description := trim t, isLoading := False\<rparr>
      | None \<Rightarrow> attempt_loop api 2 (d\<lparr>requests := requests d + 1, waits := waits d @ [1000]\<rparr>))"
  by (subst attempt_loop.simps)
     (simp del: One_nat_def add: MAX_RETRIES_def INITIAL_DELAY_MS_def Let_def one_add_one
        split: option.splits)

lemma upt_1_2: "[1..<2] = [1::nat]"
  by (simp add: upt_rec)

lemma upt_1_3: "[1..<3] = [1::nat, 2]"
  by (simp add: upt_rec)

lemma attempt_text_gen_text: "t \<noteq> [] \<Longrightarrow> attempt_text (gen_text t) = Some t"
  by (simp add: gen_text_def truthy_def)

text \<open>
  Claim C3, as amended. For a drafting run with a non-empty title and non-empty
  technologies, with \<open>n\<close> the number of requests it sends: \<open>n\<close> is between 1 and 3; the
  delays waited are \<open>1000 * 2 ^ (k - 1)\<close> ms after each failed attempt \<open>k < n\<close>, that
  is 1000 and then 2000; a response whose first candidate has no text is a failed
  attempt, and a failed first or second attempt is followed by another attempt; if the
  first two attempts fail and the third returns the text \<open>t\<close>, the description is set to
  \<open>t\<close> with the white space at its ends trimmed, and no error is set; if all three
  attempts fail, the final error is set and the description is left as it was. The
  theorem also records what \<open>if (text)\<close> does with a text that is there but empty: that
  attempt fails as well.
\<close>

theorem drafting_retry:
  assumes "title_in \<noteq> []" and "technologies_in \<noteq> []"
  shows
    "(let r = generateProjectDescription title_in technologies_in api d;
          n = requests r - requests d
      in 1 \<le> n \<and> n \<le> 3
       \<and> waits r = waits d @ map (\<lambda>k. 1000 * 2 ^ (k - 1)) [1..<n]
       \<and> (first_text body = None
            \<longrightarrow> attempt_text (Fetched (Response ok status (Some body))) = None)
       \<and> (first_text body = Some []
            \<longrightarrow> attempt_text (Fetched (Response ok status (Some body))) = None)
       \<and> (attempt_text (api 1) = None \<longrightarrow> 2 \<le> n)
       \<and> (attempt_text (api 1) = None \<and> attempt_text (api 2) = None \<longrightarrow> n = 3)
       \<and> (attempt_text (api 1) = None \<and> attempt_text (api 2) = None
            \<and> api 3 = Fetched (Response True status' (Some body'))
            \<and> first_text body' = Some t \<and> t \<noteq> []
            \<longrightarrow> form_description r = trim t \<and> draft_error r = None \<and> \<not> isLoading r)
       \<and> (attempt_text (api 1) = None \<and> attempt_text (api 2) = None
            \<and> attempt_text (api 3) = None
            \<longrightarrow> draft_error r = Some ''Failed to generate description after multiple attempts.''
                \<and> form_description r = form_description d \<and> \<not> isLoading r))"
proof -
  define r where "r = generateProjectDescription title_in technologies_in api d"
  define n where "n = requests r - requests d"
  have g: "r = attempt_loop api 1 (d\<lparr>isLoading := True, draft_error := None\<rparr>)"
    using assms by (simp add: r_def generateProjectDescription_def truthy_def)
  have 1: "1 \<le> n \<and> n \<le> 3"
    by (simp del: One_nat_def add: n_def g attempt_loop_1 attempt_loop_2 attempt_loop_3
        split: option.splits)
  have 2: "waits r = waits d @ map (\<lambda>k. 1000 * 2 ^ (k - 1)) [1..<n]"
    by (simp del: One_nat_def add: n_def g attempt_loop_1 attempt_loop_2 attempt_loop_3
        upt_1_2 upt_1_3 split: option.splits)
  have 3: "first_text body = None
      \<longrightarrow> attempt_text (Fetched (Response ok status (Some body))) = None"
    by simp
  have 8: "first_text body = Some []
      \<longrightarrow> attempt_text (Fetched (Response ok status (Some body))) = None"
    by (simp add: truthy_def)
  have 4: "attempt_text (api 1) = None \<longrightarrow> 2 \<le> n"
    by (simp del: One_nat_def add: n_def g attempt_loop_1 attempt_loop_2 attempt_loop_3
        split: option.splits)
  have 5: "attempt_text (api 1) = None \<and> attempt_text (api 2) = None \<longrightarrow> n = 3"
    by (simp del: One_nat_def add: n_def g attempt_loop_1 attempt_loop_2 attempt_loop_3
        split: option.splits)
  have 6: "attempt_text (api 1) = None \<and> attempt_text (api 2) = None
         \<and> api 3 = Fetched (Response True status' (Some body'))
         \<and> first_text body' = Some t \<and> t \<noteq> []
         \<longrightarrow> form_description r = trim t \<and> draft_error r = None \<and> \<not> isLoading r"
    by (simp del: One_nat_def add: g attempt_loop_1 attempt_loop_2 attempt_loop_3 truthy_def)
  have 7: "attempt_text (api 1) = None \<and> attempt_text (api 2) = None \<and> attempt_text (api 3) = None
         \<longrightarrow> draft_error r = Some ''Failed to generate description after multiple attempts.''
             \<and> form_description r = form_description d \<and> \<not> isLoading r"
    by (simp del: One_nat_def add: g attempt_loop_1 attempt_loop_2 attempt_loop_3)
  from 1 2 3 8 4 5 6 7 show ?thesis
    unfolding Let_def r_def [symmetric] n_def [symmetric] by blast
qed

lemma third_succeeds_outcomes:
  "attempt_text (third_succeeds t 1) = None"
  "attempt_text (third_succeeds t 2) = None"
  "third_succeeds t 3 = Fetched (Response True 200
     (Some (GenResult (Some [Candidate (Some (Content (Some [Part (Some t)])))]))))"
  by (simp_all add: third_succeeds_def gen_text_def)

lemma trim_example: "trim (js '' Draft text '') = js ''Draft text''"
  by (simp add: trim_def is_whitespace_def js_def)

theorem drafting_retry_witness:
  "form_description (generateProjectDescription (js ''Shop'') (js ''React'')
      (third_succeeds (js '' Draft text '')) initial_draft) = js ''Draft text''
   \<and> draft_error (generateProjectDescription (js ''Shop'') (js ''React'')
      (third_succeeds (js '' Draft text '')) initial_draft) = None
   \<and> requests (generateProjectDescription (js ''Shop'') (js ''React'')
      (third_succeeds (js '' Draft text '')) initial_draft) = 3
   \<and> waits (generateProjectDescription (js ''Shop'') (js ''React'')
      (third_succeeds (js '' Draft text '')) initial_draft) = [1000, 2000]
   \<and> draft_error (generateProjectDescription (js ''Shop'') (js ''React'') always_fails
      initial_draft) = Some ''Failed to generate description after multiple attempts.''
   \<and> attempt_text (Fetched (Response True 200 (Some (GenResult (Some []))))) = None
   \<and> attempt_text (Fetched (Response True 200
        (Some (GenResult (Some [Candidate (Some (Content (Some [Part (Some [])])))]))))) = None"
proof -
  let ?t = "js '' Draft text ''"
  let ?r = "generateProjectDescription (js ''Shop'') (js ''React'') (third_succeeds ?t)
      initial_draft"
  let ?f = "generateProjectDescription (js ''Shop'') (js ''React'') always_fails initial_draft"
  have title: "js ''Shop'' \<noteq> []" and tech: "js ''React'' \<noteq> []" and nonempty: "?t \<noteq> []"
    by (simp_all add: js_def)
  have body: "first_text (GenResult (Some [Candidate (Some (Content (Some [Part (Some ?t)])))]))
      = Some ?t"
    by simp
  have down: "attempt_text (always_fails k) = None" for k
    by (simp add: always_fails_def)
  have start: "requests initial_draft = 0" "waits initial_draft = []"
    by (simp_all add: initial_draft_def)
  note ok = drafting_retry [OF title tech, where api = "third_succeeds ?t" and d = initial_draft
      and t = ?t and status' = 200
      and body' = "GenResult (Some [Candidate (Some (Content (Some [Part (Some ?t)])))])"
      and body = "GenResult (Some [])" and ok = True and status = 200,
      unfolded Let_def]
  note bad = drafting_retry [OF title tech, where api = always_fails and d = initial_draft,
      unfolded Let_def]
  have n: "requests ?r - requests initial_draft = 3"
    using ok third_succeeds_outcomes(1,2) by blast
  have w: "waits ?r = waits initial_draft
      @ map (\<lambda>k. 1000 * 2 ^ (k - 1)) [1..<requests ?r - requests initial_draft]"
    using ok by blast
  have res: "form_description ?r = trim ?t \<and> draft_error ?r = None"
    using ok third_succeeds_outcomes nonempty body by blast
  have fail: "draft_error ?f = Some ''Failed to generate description after multiple attempts.''"
    using bad down by blast
  have absent: "attempt_text (Fetched (Response True 200 (Some (GenResult (Some []))))) = None"
  proof -
    have "first_text (GenResult (Some [])) = None" by simp
    with ok show ?thesis by blast
  qed
  note bad' = drafting_retry [OF title tech, where api = always_fails and d = initial_draft
      and body = "GenResult (Some [Candidate (Some (Content (Some [Part (Some [])])))])"
      and ok = True and status = 200, unfolded Let_def]
  have empty: "attempt_text (Fetched (Response True 200
        (Some (GenResult (Some [Candidate (Some (Content (Some [Part (Some [])])))]))))) = None"
  proof -
    have "first_text (GenResult (Some [Candidate (Some (Content (Some [Part (Some [])])))]))
        = Some []"
      by simp
    with bad' show ?thesis by blast
  qed
  show ?thesis
    using n w res fail absent empty
    by (simp del: One_nat_def add: start trim_example upt_1_3)
qed

text \<open>
  The claim as stated fails: after two failed attempts the third response carries the
  text \<open>" Draft text "\<close>, and the description shown is \<open>"Draft text"\<close>, not that text.
\<close>

theorem drafting_retry_counterexample:
  "attempt_text (third_succeeds (js '' Draft text '') 1) = None
   \<and> attempt_text (third_succeeds (js '' Draft text '') 2) = None
   \<and> attempt_text (third_succeeds (js '' Draft text '') 3) = Some (js '' Draft text '')
   \<and> form_description (generateProjectDescription (js ''Shop'') (js ''React'')
        (third_succeeds (js '' Draft text '')) initial_draft) \<noteq> js '' Draft text ''"
proof -
  have nonempty: "js '' Draft text '' \<noteq> []"
    by (simp add: js_def)
  have shown: "form_description (generateProjectDescription (js ''Shop'') (js ''React'')
        (third_succeeds (js '' Draft text '')) initial_draft) = js ''Draft text''"
    by (simp del: One_nat_def add: generateProjectDescription_def truthy_def attempt_loop_1
        attempt_loop_2 attempt_loop_3 third_succeeds_def attempt_text_gen_text [OF nonempty]
        trim_example)
       (simp add: js_def)
  have differ: "js ''Draft text'' \<noteq> js '' Draft text ''"
    by (simp add: js_def)
  show ?thesis
    unfolding shown using differ
    by (simp add: third_succeeds_def attempt_text_gen_text [OF nonempty])
qed

end
